theory Spec2Isabelle
  imports Main
begin

section \<open>JavaScript values and string helpers\<close>

text \<open>
  The values that reach the modelled functions at run time: configuration entries
  (JSON) and the arguments of the \<^verbatim>\<open>BigNumber\<close> constructor. \<open>Obj\<close> stands for
  any object or array; numbers are restricted to integers.
  Strings are \<open>string\<close>: one \<open>char\<close> per code unit, so the model covers the strings
  whose code units are below 256.
\<close>

datatype jsval = Undefined | Null | Bool bool | Num int | Str string | Obj

text \<open>JavaScript truthiness, as tested by \<^verbatim>\<open>!x\<close> and \<^verbatim>\<open>if (x)\<close>.\<close>

fun truthy :: "jsval \<Rightarrow> bool" where
  "truthy Undefined = False"
| "truthy Null = False"
| "truthy (Bool b) = b"
| "truthy (Num n) = (n \<noteq> 0)"
| "truthy (Str s) = (s \<noteq> [])"
| "truthy Obj = True"

text \<open>\<^verbatim>\<open>typeof x === 'string'\<close>.\<close>

fun is_string :: "jsval \<Rightarrow> bool" where
  "is_string (Str s) = True"
| "is_string v = False"

text \<open>
  \<^verbatim>\<open>s.split(',')\<close>: the fields between the commas; the result is never empty
  (\<^verbatim>\<open>''.split(',')\<close> is \<^verbatim>\<open>['']\<close>).
\<close>

fun split_comma :: "string \<Rightarrow> string list" where
  "split_comma [] = [[]]"
| "split_comma (c # cs) =
     (if c = CHR '','' then [] # split_comma cs
      else (case split_comma cs of
              f # fs \<Rightarrow> (c # f) # fs
            | [] \<Rightarrow> [[c]]))"

text \<open>
  \<^verbatim>\<open>s.trim()\<close>: white space and line terminators are removed at both ends. Of the
  characters ECMAScript lists, those below 256 are tab, line feed, vertical tab, form
  feed, carriage return, space and no-break space.
\<close>

definition is_ws :: "char \<Rightarrow> bool" where
  "is_ws c = (c \<in> set [CHR 0x09, CHR 0x0A, CHR 0x0B, CHR 0x0C, CHR 0x0D, CHR 0x20, CHR 0xA0])"

definition trim :: "string \<Rightarrow> string" where
  "trim s = rev (dropWhile is_ws (rev (dropWhile is_ws s)))"

text \<open>
  Array destructuring \<^verbatim>\<open>const [a, b, c] = xs\<close>: a position beyond the end of the
  array is \<^verbatim>\<open>undefined\<close>, here \<open>None\<close>.
\<close>

definition nth_opt :: "'a list \<Rightarrow> nat \<Rightarrow> 'a option" where
  "nth_opt xs i = (if i < length xs then Some (xs ! i) else None)"

text \<open>The fields of a descriptor: \<^verbatim>\<open>descriptor.split(',').map(p => p.trim())\<close>.\<close>

definition descriptor_fields :: "string \<Rightarrow> string list" where
  "descriptor_fields descriptor = map trim (split_comma descriptor)"

text \<open>A destructured field as the argument of a constructor.\<close>

fun of_field :: "string option \<Rightarrow> jsval" where
  "of_field None = Undefined"
| "of_field (Some s) = Str s"

section \<open>Data model (fa2-interface)\<close>

text \<open>
  \<^verbatim>\<open>BigNumber\<close> comes from the library bignumber.js. Its constructor is a parameter
  \<open>bn :: jsval \<Rightarrow> 'bn\<close> of every function that calls it: in the library's default
  configuration it never throws (a malformed argument gives the value NaN).
\<close>

text \<open>
  The fields \<^verbatim>\<open>from_\<close> and \<^verbatim>\<open>to_\<close> are written \<open>from'\<close> and \<open>to'\<close>. A field
  that the source reads from a descriptor is a \<open>string option\<close>, \<open>None\<close> being
  \<^verbatim>\<open>undefined\<close>.
\<close>

record 'bn Fa2TransferDestination =
  to' :: "string option"
  token_id :: 'bn
  amount :: 'bn

record 'bn Fa2Transfer =
  from' :: "string option"
  txs :: "'bn Fa2TransferDestination list"

section \<open>Transfer batches: \<^verbatim>\<open>parseTransfers\<close>\<close>

text \<open>
  \<^verbatim>\<open>
  const [from_, to_, token_id] = description.split(',').map(p => p.trim());
  const tx = { from_, txs: [{ to_, token_id: new BigNumber(token_id),
                              amount: new BigNumber(1) }] };
  if (batch.length > 0 && batch[0].from_ === from_) {
    //merge last two transfers if their from_ addresses are the same
    batch[0].txs = batch[0].txs.concat(tx.txs);
    return batch;
  }
  return batch.concat(tx);
  \<close>
  The source updates \<^verbatim>\<open>batch[0]\<close> in place and returns the same array; the model
  returns the updated batch.
\<close>

definition new_tx :: "(jsval \<Rightarrow> 'bn) \<Rightarrow> string \<Rightarrow> 'bn Fa2Transfer" where
  "new_tx bn description =
     (let fs = descriptor_fields description
      in \<lparr> from' = nth_opt fs 0,
           txs = [\<lparr> to' = nth_opt fs 1,
                    token_id = bn (of_field (nth_opt fs 2)),
                    amount = bn (Num 1) \<rparr>] \<rparr>)"

definition parseTransfers ::
  "(jsval \<Rightarrow> 'bn) \<Rightarrow> string \<Rightarrow> 'bn Fa2Transfer list \<Rightarrow> 'bn Fa2Transfer list" where
  "parseTransfers bn description batch =
     (let tx = new_tx bn description
      in if length batch > 0 \<and> from' (batch ! 0) = from' tx
         then batch[0 := (batch ! 0)\<lparr> txs := txs (batch ! 0) @ txs tx \<rparr>]
         else batch @ [tx])"

text \<open>
  The command line hands the descriptors to \<^verbatim>\<open>parseTransfers\<close> one by one, each
  call receiving the batch the previous call returned, starting from \<^verbatim>\<open>[]\<close>.
\<close>

definition compileTransfers :: "(jsval \<Rightarrow> 'bn) \<Rightarrow> string list \<Rightarrow> 'bn Fa2Transfer list" where
  "compileTransfers bn descriptions = foldl (\<lambda>batch d. parseTransfers bn d batch) [] descriptions"

section \<open>Token metadata and initial storage\<close>

text \<open>
  \<^verbatim>\<open>MichelsonMap\<close> (library taquito) is a map from keys to values: \<^verbatim>\<open>set\<close> stores or
  replaces the value of a key, and two keys are the same when they are equal as
  values of \<open>'bn\<close>.
\<close>

type_synonym ('k, 'v) MichelsonMap = "'k \<rightharpoonup> 'v"

record 'bn TokenMetadata =
  token_id :: 'bn
  symbol :: "string option"
  name :: "string option"
  decimals :: 'bn
  extras :: "(string, string) MichelsonMap"

text \<open>
  \<^verbatim>\<open>
  const [id, symbol, name, ipfcCid] = descriptor.split(',').map(p => p.trim());
  const token = { token_id: new BigNumber(id), symbol, name,
                  decimals: new BigNumber(0), extras: new MichelsonMap() };
  if (ipfcCid) token.extras.set('ipfs_cid', ipfcCid);
  return [token].concat(tokens);
  \<close>
\<close>

definition new_token :: "(jsval \<Rightarrow> 'bn) \<Rightarrow> string \<Rightarrow> 'bn TokenMetadata" where
  "new_token bn descriptor =
     (let fs = descriptor_fields descriptor;
          token = \<lparr> token_id = bn (of_field (nth_opt fs 0)),
                    symbol = nth_opt fs 1,
                    name = nth_opt fs 2,
                    decimals = bn (Num 0),
                    extras = Map.empty \<rparr>
      in case nth_opt fs 3 of
           None \<Rightarrow> token
         | Some ipfcCid \<Rightarrow>
             if truthy (Str ipfcCid)
             then token\<lparr> extras := (extras token)(''ipfs_cid'' \<mapsto> ipfcCid) \<rparr>
             else token)"

definition parseTokens ::
  "(jsval \<Rightarrow> 'bn) \<Rightarrow> string \<Rightarrow> 'bn TokenMetadata list \<Rightarrow> 'bn TokenMetadata list" where
  "parseTokens bn descriptor tokens = [new_token bn descriptor] @ tokens"

record 'bn NftStorage =
  ledger :: "('bn, string) MichelsonMap"
  operators :: "(jsval, jsval) MichelsonMap"
  token_metadata :: "('bn, 'bn TokenMetadata) MichelsonMap"

text \<open>
  \<^verbatim>\<open>
  for (let meta of tokens) {
    ledger.set(meta.token_id, owner);
    token_metadata.set(meta.token_id, meta);
  }
  return { ledger, operators: new MichelsonMap(), token_metadata };
  \<close>
  The loop carries the two maps it fills (\<open>lgr\<close> the ledger, \<open>tmd\<close> the metadata).
\<close>

fun createNftStorage_loop ::
  "'bn TokenMetadata list \<Rightarrow> string \<Rightarrow>
   ('bn, string) MichelsonMap \<times> ('bn, 'bn TokenMetadata) MichelsonMap \<Rightarrow>
   ('bn, string) MichelsonMap \<times> ('bn, 'bn TokenMetadata) MichelsonMap" where
  "createNftStorage_loop [] ownr (lgr, tmd) = (lgr, tmd)"
| "createNftStorage_loop (meta # tokens) ownr (lgr, tmd) =
     createNftStorage_loop tokens ownr
       (lgr(token_id meta \<mapsto> ownr), tmd(token_id meta \<mapsto> meta))"

definition createNftStorage :: "'bn TokenMetadata list \<Rightarrow> string \<Rightarrow> 'bn NftStorage" where
  "createNftStorage tokens ownr =
     (case createNftStorage_loop tokens ownr (Map.empty, Map.empty) of
        (lgr, tmd) \<Rightarrow>
          \<lparr> ledger = lgr, operators = Map.empty, token_metadata = tmd \<rparr>)"

section \<open>Effects, errors and collaborators\<close>

text \<open>
  \<^verbatim>\<open>Configstore\<close> is read with \<^verbatim>\<open>config.get(key)\<close>, which is \<^verbatim>\<open>undefined\<close> for a
  key that is not stored.
\<close>

type_synonym Configstore = "string \<Rightarrow> jsval"

text \<open>
  A message is the sequence of the pieces of its template literal: fixed text and
  string values (\<open>Txt\<close>) and interpolated configuration values (\<open>Val\<close>). The colour
  functions of \<^verbatim>\<open>kleur\<close> only decorate the text and are left out.
\<close>

datatype piece = Txt string | Val jsval

text \<open>
  What a function of the source throws or rejects with:
  \<^item> \<open>Error msg\<close>: \<^verbatim>\<open>throw new Error(msg)\<close>;
  \<^item> \<open>Rejected s\<close>: \<^verbatim>\<open>Promise.reject(s)\<close> with a string;
  \<^item> \<open>RejectedUndefined\<close>: \<^verbatim>\<open>reject()\<close> without a value;
  \<^item> \<open>RetriesExhausted es\<close>: the rejection of \<^verbatim>\<open>retry\<close> once its attempts are used up,
    \<open>es\<close> being the errors of the attempts in order (the library rejects with one of
    them);
  \<^item> \<open>External e\<close>: an error \<open>e\<close> raised by a collaborator.
\<close>

datatype 'e error =
    Error "piece list"
  | Rejected string
  | RejectedUndefined
  | RetriesExhausted "'e list"
  | External 'e

record 's TezosToolkit =
  rpc :: jsval
  signer :: 's
  confirmationPollingIntervalSecond :: int

record 'bn BalanceOfRequest =
  token_id :: 'bn
  owner :: string

record 'bn BalanceOfResponse =
  request :: "'bn BalanceOfRequest"
  balance :: 'bn

record 'bn OperatorParam =
  owner :: string
  operator :: string
  token_id :: 'bn

text \<open>
  The \<^verbatim>\<open>storage: string | object\<close> argument of \<^verbatim>\<open>originateContract\<close> and the request
  it builds: \<^verbatim>\<open>{ code, init: storage }\<close> for a string, \<^verbatim>\<open>{ code, storage }\<close> otherwise.
\<close>

datatype 'bn storage = StorageString string | StorageObject "'bn NftStorage"

datatype 'bn origParam = CodeInit string string | CodeStorage string "'bn NftStorage"

text \<open>
  The calls the source makes to its collaborators and to the console, in the order in
  which they happen.
\<close>

datatype ('e, 'bn) event =
    Log "piece list"
  | LogError string "'e error"
  | PrintBalances "'bn BalanceOfResponse list"
  | SuggestCommand string
  | LoadUserConfig
  | ResolveAlias2Signer string
  | ResolveAlias2Address string
  | NewToolkit jsval
  | PublicKeyHash
  | LoadFile string
  | Originate "'bn origParam"
  | OperationContract
  | ContractAt string
  | QuerySend string "'bn BalanceOfRequest list"
  | Confirmation
  | ContractStorage
  | Exec string
  | GetBlockHeader string
  | ConfigSet string jsval

text \<open>
  The collaborators, none of which is part of the modelled files: the modules
  \<^verbatim>\<open>config-util\<close> and \<^verbatim>\<open>config-aliases\<close>, the network behind a \<^verbatim>\<open>TezosToolkit\<close>,
  and the shell. Each is a function of its arguments that returns its value or its
  error. \<open>getBlockHeader w tz b n\<close> is the outcome of the \<open>n\<close>-th request for the
  header of block \<open>b\<close> (counting from 1); \<open>exec w cmd\<close> is whether the command failed,
  with its standard and error output; \<open>storage_state w c\<close> is the \<^verbatim>\<open>state\<close> field of the
  contract's storage, \<open>None\<close> when it is not an array.
\<close>

record ('s, 'e, 'op, 'c, 'bn) world =
  loadUserConfig :: Configstore
  activeNetworkKey :: "Configstore \<Rightarrow> 'e + string"
  inspectorKey :: "Configstore \<Rightarrow> 'e + string"
  loadFile :: "string \<Rightarrow> 'e + string"
  resolveAlias2Signer :: "string \<Rightarrow> Configstore \<Rightarrow> 'e + 's"
  resolveAlias2Address :: "string \<Rightarrow> Configstore \<Rightarrow> 'e + string"
  publicKeyHash :: "'s \<Rightarrow> 'e + string"
  originate :: "'s TezosToolkit \<Rightarrow> 'bn origParam \<Rightarrow> 'e + 'op"
  contract :: "'op \<Rightarrow> 'e + string"
  contract_at :: "'s TezosToolkit \<Rightarrow> string \<Rightarrow> 'e + 'c"
  query_send :: "'c \<Rightarrow> string \<Rightarrow> 'bn BalanceOfRequest list \<Rightarrow> 'e + 'op"
  confirmation :: "'op \<Rightarrow> 'e + unit"
  storage_state :: "'c \<Rightarrow> 'e + 'bn BalanceOfResponse list option"
  exec :: "string \<Rightarrow> bool \<times> string \<times> string"
  getBlockHeader :: "'s TezosToolkit \<Rightarrow> string \<Rightarrow> nat \<Rightarrow> 'e + unit"

text \<open>
  A computation returns the events it caused and its value or its error.
  \<open>await m k\<close> runs \<open>m\<close> and, when \<open>m\<close> succeeds, continues with \<open>k\<close>; an error of \<open>m\<close>
  ends the computation, as a rejected \<^verbatim>\<open>await\<close> or a \<^verbatim>\<open>throw\<close> does.
  \<open>call ev r\<close> is a call to a collaborator whose outcome is \<open>r\<close>.
\<close>

type_synonym ('e, 'bn, 'a) io = "('e, 'bn) event list \<times> ('e error + 'a)"

definition await :: "('e, 'bn, 'a) io \<Rightarrow> ('a \<Rightarrow> ('e, 'bn, 'b) io) \<Rightarrow> ('e, 'bn, 'b) io" where
  "await m k =
     (case m of
        (t, Inl e) \<Rightarrow> (t, Inl e)
      | (t, Inr a) \<Rightarrow> (case k a of (t', r) \<Rightarrow> (t @ t', r)))"

definition call :: "('e, 'bn) event \<Rightarrow> 'e + 'a \<Rightarrow> ('e, 'bn, 'a) io" where
  "call ev r = ([ev], case r of Inl e \<Rightarrow> Inl (External e) | Inr a \<Rightarrow> Inr a)"

definition console_log :: "piece list \<Rightarrow> ('e, 'bn, unit) io" where
  "console_log msg = ([Log msg], Inr ())"

section \<open>Toolkit factory\<close>

text \<open>
  \<^verbatim>\<open>
  const pk = `${activeNetworkKey(config)}.providerUrl`;
  const providerUrl = config.get(pk);
  if (!providerUrl) {
    const msg = `network provider for ${kleur.yellow(config.get('activeNetwork'))} URL is not configured`;
    console.log(kleur.red(msg));
    throw new Error(msg);
  }
  const toolkit = new TezosToolkit(providerUrl);
  toolkit.setProvider({ signer, rpc: providerUrl,
                        config: { confirmationPollingIntervalSecond: 5 } });
  return toolkit;
  \<close>
\<close>

definition createToolkitFromSigner ::
  "('s, 'e, 'op, 'c, 'bn) world \<Rightarrow> 's \<Rightarrow> Configstore \<Rightarrow> ('e, 'bn, 's TezosToolkit) io" where
  "createToolkitFromSigner w sg config =
     (case activeNetworkKey w config of
        Inl e \<Rightarrow> ([], Inl (External e))
      | Inr key \<Rightarrow>
          (let pk = key @ ''.providerUrl'';
               providerUrl = config pk
           in if \<not> truthy providerUrl
              then (let msg = [Txt ''network provider for '', Val (config ''activeNetwork''),
                               Txt '' URL is not configured'']
                    in ([Log msg], Inl (Error msg)))
              else ([NewToolkit providerUrl],
                    Inr \<lparr> rpc = providerUrl, signer = sg,
                          confirmationPollingIntervalSecond = 5 \<rparr>)))"

definition createToolkit ::
  "('s, 'e, 'op, 'c, 'bn) world \<Rightarrow> string \<Rightarrow> Configstore \<Rightarrow> ('e, 'bn, 's TezosToolkit) io" where
  "createToolkit w address_or_alias config =
     await (call (ResolveAlias2Signer address_or_alias)
              (resolveAlias2Signer w address_or_alias config))
       (\<lambda>sg. createToolkitFromSigner w sg config)"

section \<open>Origination\<close>

text \<open>
  \<^verbatim>\<open>
  const origParam =
    typeof storage === 'string' ? { code, init: storage } : { code, storage };
  try {
    const originationOp = await tz.contract.originate(origParam);
    const contract = await originationOp.contract();
    return contract.address;
  } catch (error) {
    const jsonError = JSON.stringify(error, null, 2);
    console.log(kleur.red(`${name} origination error ${jsonError}`));
    return Promise.reject(error);
  }
  \<close>
  \<open>make_origParam\<close> is the value of \<^verbatim>\<open>origParam\<close>; \<open>LogError text error\<close> is the line made
  of \<open>text\<close> and the serialised \<open>error\<close>.
\<close>

definition make_origParam :: "string \<Rightarrow> 'bn storage \<Rightarrow> 'bn origParam" where
  "make_origParam code storage =
     (case storage of
        StorageString init \<Rightarrow> CodeInit code init
      | StorageObject st \<Rightarrow> CodeStorage code st)"

definition originateContract ::
  "('s, 'e, 'op, 'c, 'bn) world \<Rightarrow> 's TezosToolkit \<Rightarrow> string \<Rightarrow> 'bn storage \<Rightarrow> string \<Rightarrow>
   ('e, 'bn, string) io" where
  "originateContract w tz code storage name' =
     (let origParam = make_origParam code storage
      in case await (call (Originate origParam) (originate w tz origParam))
                (\<lambda>originationOp. call OperationContract (contract w originationOp)) of
           (t, Inl err) \<Rightarrow> (t @ [LogError (name' @ '' origination error '') err], Inl err)
         | (t, Inr address) \<Rightarrow> (t, Inr address))"

definition originateInspector ::
  "('s, 'e, 'op, 'c, 'bn) world \<Rightarrow> 's TezosToolkit \<Rightarrow> ('e, 'bn, string) io" where
  "originateInspector w tezos =
     await (call (LoadFile ''../ligo/out/inspector.tz'') (loadFile w ''../ligo/out/inspector.tz''))
       (\<lambda>code. originateContract w tezos code (StorageString ''(Left Unit)'') ''inspector'')"

text \<open>
  \<^verbatim>\<open>
  if (tokens.length === 0)
    return Promise.reject('there are no token definitions provided');
  const config = loadUserConfig();
  const tz = await createToolkit(owner, config);
  const ownerAddress = await tz.signer.publicKeyHash();
  const code = await loadFile(path.join(__dirname, '../ligo/out/fa2_fixed_collection_token.tz'));
  const storage = createNftStorage(tokens, ownerAddress);
  console.log(kleur.yellow('originating new NFT contract...'));
  const nftAddress = await originateContract(tz, code, storage, 'nft');
  console.log(kleur.yellow(`originated NFT collection ${kleur.green(nftAddress)}`));
  \<close>
\<close>

definition mintNfts ::
  "('s, 'e, 'op, 'c, 'bn) world \<Rightarrow> string \<Rightarrow> 'bn TokenMetadata list \<Rightarrow> ('e, 'bn, unit) io" where
  "mintNfts w ownr tokens =
     (if length tokens = 0
      then ([], Inl (Rejected ''there are no token definitions provided''))
      else
        await ([LoadUserConfig], Inr (loadUserConfig w)) (\<lambda>config.
        await (createToolkit w ownr config) (\<lambda>tz.
        await (call PublicKeyHash (publicKeyHash w (signer tz))) (\<lambda>ownerAddress.
        await (call (LoadFile ''../ligo/out/fa2_fixed_collection_token.tz'')
                 (loadFile w ''../ligo/out/fa2_fixed_collection_token.tz'')) (\<lambda>code.
        let storage = createNftStorage tokens ownerAddress in
        await (console_log [Txt ''originating new NFT contract...'']) (\<lambda>_.
        await (originateContract w tz code (StorageObject storage) ''nft'') (\<lambda>nftAddress.
        console_log [Txt ''originated NFT collection '', Txt nftAddress])))))))"

section \<open>Balance queries\<close>

text \<open>The string of a value known to be a string.\<close>

fun string_of :: "jsval \<Rightarrow> string" where
  "string_of (Str s) = s"
| "string_of v = []"

text \<open>
  \<^verbatim>\<open>
  const config = loadUserConfig();
  const tz = await createToolkit(signer, config);
  const ownerAddress = await resolveAlias2Address(owner, config);
  const nftAddress = await resolveAlias2Address(nft, config);
  const requests = tokens.map(t => {
    return { token_id: new BigNumber(t), owner: ownerAddress };
  });
  const inspectorAddress = config.get(inspectorKey(config));
  if (!inspectorAddress || typeof inspectorAddress !== 'string') {
    console.log(kleur.red('Cannot find deployed balance inspector contract.'));
    suggestCommand('bootstrap');
    return;
  }
  console.log(`querying NFT contract ${nftAddress} using balance inspector ${inspectorAddress}`);
  const inspector = await tz.contract.at(inspectorAddress);
  const balanceOp = await inspector.methods.query(nftAddress, requests).send();
  await balanceOp.confirmation();
  const storage = await inspector.storage<InspectorStorage>();
  if (Array.isArray(storage.state)) printBalances(storage.state);
  else {
    console.log(kleur.red('invalid inspector storage state'));
    return Promise.reject('Invalid inspector storage state Empty.');
  }
  \<close>
\<close>

definition showBalances ::
  "('s, 'e, 'op, 'c, 'bn) world \<Rightarrow> (jsval \<Rightarrow> 'bn) \<Rightarrow> string \<Rightarrow> string \<Rightarrow> string \<Rightarrow>
   string list \<Rightarrow> ('e, 'bn, unit) io" where
  "showBalances w bn sg nft ownr tokens =
     await ([LoadUserConfig], Inr (loadUserConfig w)) (\<lambda>config.
     await (createToolkit w sg config) (\<lambda>tz.
     await (call (ResolveAlias2Address ownr) (resolveAlias2Address w ownr config)) (\<lambda>ownerAddress.
     await (call (ResolveAlias2Address nft) (resolveAlias2Address w nft config)) (\<lambda>nftAddress.
     let requests = map (\<lambda>t. \<lparr> BalanceOfRequest.token_id = bn (Str t),
                                BalanceOfRequest.owner = ownerAddress \<rparr>) tokens
     in case inspectorKey w config of
          Inl e \<Rightarrow> ([], Inl (External e))
        | Inr key \<Rightarrow>
            (let inspectorAddress = config key
             in if \<not> truthy inspectorAddress \<or> \<not> is_string inspectorAddress
                then ([Log [Txt ''Cannot find deployed balance inspector contract.''],
                       SuggestCommand ''bootstrap''], Inr ())
                else
                  await (console_log [Txt ''querying NFT contract '', Txt nftAddress,
                                      Txt '' using balance inspector '',
                                      Txt (string_of inspectorAddress)]) (\<lambda>_.
                  await (call (ContractAt (string_of inspectorAddress))
                           (contract_at w tz (string_of inspectorAddress))) (\<lambda>inspector.
                  await (call (QuerySend nftAddress requests)
                           (query_send w inspector nftAddress requests)) (\<lambda>balanceOp.
                  await (call Confirmation (confirmation w balanceOp)) (\<lambda>_.
                  await (call ContractStorage (storage_state w inspector)) (\<lambda>state.
                  case state of
                    Some balances \<Rightarrow> ([PrintBalances balances], Inr ())
                  | None \<Rightarrow> ([Log [Txt ''invalid inspector storage state'']],
                             Inl (Rejected ''Invalid inspector storage state Empty.''))))))))))))"

section \<open>Operator lists\<close>

text \<open>
  \<^verbatim>\<open>
  const resolved = operators.map(async o => {
    try {
      const [op, token] = o.split(',');
      const operator = await resolveAlias2Address(op, config);
      const token_id = new BigNumber(token);
      return { owner, operator, token_id };
    } catch (e) {
      console.log(kleur.red(`cannot parse operator definition ${kleur.yellow(o)}`));
      console.log(kleur.red("correct operator format is 'operator_alias_or_address, token_id'"));
      throw e;
    }
  });
  return Promise.all(resolved);
  \<close>
  \<open>resolveOperator\<close> is the function mapped over the list. \<^verbatim>\<open>split\<close> never returns an
  empty array, so \<^verbatim>\<open>op\<close> is its first element; the fields are not trimmed here.
  The function runs up to its \<^verbatim>\<open>await\<close> when \<^verbatim>\<open>map\<close> calls it and continues when the
  resolution has settled. Its model gives the events before the \<^verbatim>\<open>await\<close>, the events
  after it, and the outcome of the promise it returns. Nothing in the \<^verbatim>\<open>try\<close> block
  looks at the format of the entry: only a rejected resolution reaches the
  \<^verbatim>\<open>catch\<close> block.
\<close>

type_synonym ('e, 'bn, 'a) started =
  "('e, 'bn) event list \<times> ('e, 'bn) event list \<times> ('e error + 'a)"

definition resolveOperator ::
  "('s, 'e, 'op, 'c, 'bn) world \<Rightarrow> (jsval \<Rightarrow> 'bn) \<Rightarrow> string \<Rightarrow> Configstore \<Rightarrow> string \<Rightarrow>
   ('e, 'bn, 'bn OperatorParam) started" where
  "resolveOperator w bn ownr config descr =
     (let parts = split_comma descr;
          op = hd parts;
          token = nth_opt parts 1
      in case resolveAlias2Address w op config of
           Inr operator' \<Rightarrow>
             ([ResolveAlias2Address op], [],
              Inr \<lparr> owner = ownr, operator = operator', token_id = bn (of_field token) \<rparr>)
         | Inl e \<Rightarrow>
             ([ResolveAlias2Address op],
              [Log [Txt ''cannot parse operator definition '', Txt descr],
               Log [Txt ''correct operator format is '', Txt [CHR 0x27],
                    Txt ''operator_alias_or_address, token_id'', Txt [CHR 0x27]]],
              Inl (External e)))"

text \<open>
  \<^verbatim>\<open>Promise.all\<close>: the list of all values, in the order of the list, when every promise
  is fulfilled; a rejection when one is rejected. All the functions have run up to
  their \<^verbatim>\<open>await\<close> before one of them continues, so the events before the \<^verbatim>\<open>await\<close>s
  come first, in the order of the list, and every started function continues, also
  after a rejection. The promises are taken to settle in the order of the list: the
  events after the \<^verbatim>\<open>await\<close>s are listed in that order, and the rejection reported is
  the one of the first rejected promise of the list. When they settle in another
  order, the source reports the rejection that comes first in time; whether the
  result is a rejection or the list of values does not depend on the order.
\<close>

fun all_values :: "('x + 'a) list \<Rightarrow> 'x + 'a list" where
  "all_values [] = Inr []"
| "all_values (r # rs) =
     (case r of
        Inl e \<Rightarrow> Inl e
      | Inr v \<Rightarrow> (case all_values rs of Inl e \<Rightarrow> Inl e | Inr vs \<Rightarrow> Inr (v # vs)))"

definition Promise_all :: "('e, 'bn, 'a) started list \<Rightarrow> ('e, 'bn, 'a list) io" where
  "Promise_all ps =
     (concat (map fst ps) @ concat (map (\<lambda>p. fst (snd p)) ps),
      all_values (map (\<lambda>p. snd (snd p)) ps))"

definition resolveOperators ::
  "('s, 'e, 'op, 'c, 'bn) world \<Rightarrow> (jsval \<Rightarrow> 'bn) \<Rightarrow> string \<Rightarrow> string list \<Rightarrow> Configstore \<Rightarrow>
   ('e, 'bn, 'bn OperatorParam list) io" where
  "resolveOperators w bn ownr operators' config =
     Promise_all (map (resolveOperator w bn ownr config) operators')"

section \<open>Bootstrap\<close>

text \<open>
  \<^verbatim>\<open>retry(fn, { retries })\<close> of the library async-retry calls \<open>fn\<close> with the number of
  the attempt, starting at 1, and calls it again after a failure, at most \<open>retries\<close>
  more times; the waiting time between two attempts is not modelled.
  \<open>run_attempts fn left num errs\<close> is attempt \<open>num\<close> with \<open>left\<close> retries left, \<open>errs\<close>
  being the errors of the earlier attempts.
\<close>

fun run_attempts ::
  "(nat \<Rightarrow> ('e, 'bn) event list \<times> ('e + 'a)) \<Rightarrow> nat \<Rightarrow> nat \<Rightarrow> 'e list \<Rightarrow> ('e, 'bn, 'a) io" where
  "run_attempts fn 0 num errs =
     (case fn num of
        (t, Inr v) \<Rightarrow> (t, Inr v)
      | (t, Inl e) \<Rightarrow> (t, Inl (RetriesExhausted (errs @ [e]))))"
| "run_attempts fn (Suc left) num errs =
     (case fn num of
        (t, Inr v) \<Rightarrow> (t, Inr v)
      | (t, Inl e) \<Rightarrow>
          (case run_attempts fn left (Suc num) (errs @ [e]) of (t', r) \<Rightarrow> (t @ t', r)))"

definition retry ::
  "(nat \<Rightarrow> ('e, 'bn) event list \<times> ('e + 'a)) \<Rightarrow> nat \<Rightarrow> ('e, 'bn, 'a) io" where
  "retry fn retries = run_attempts fn retries 1 []"

text \<open>
  \<^verbatim>\<open>
  await new Promise<void>((resolve, reject) =>
    child.exec('sh ../../nft-contracts/flextesa/start-sandbox.sh', { cwd: __dirname },
      (err, stdout, errout) => {
        if (err) { console.log('failed to start sandbox'); console.log(errout); reject(); }
        else { console.log(stdout); resolve(); }
      }));
  console.log(kleur.yellow('starting sandbox...'));
  const config = loadUserConfig();
  const toolkit = await createToolkit('bob', config);
  await retry(
    async () => { console.log('rpc...'); await toolkit.rpc.getBlockHeader({ block: '2' }); },
    { retries: 8 });
  console.log(kleur.green('sandbox started'));
  \<close>
\<close>

definition probe ::
  "('s, 'e, 'op, 'c, 'bn) world \<Rightarrow> 's TezosToolkit \<Rightarrow> nat \<Rightarrow> ('e, 'bn) event list \<times> ('e + unit)" where
  "probe w toolkit num =
     ([Log [Txt ''rpc...''], GetBlockHeader ''2''], getBlockHeader w toolkit ''2'' num)"

definition startSandbox :: "('s, 'e, 'op, 'c, 'bn) world \<Rightarrow> ('e, 'bn, unit) io" where
  "startSandbox w =
     (let cmd = ''sh ../../nft-contracts/flextesa/start-sandbox.sh''
      in case exec w cmd of
           (err, stdout, errout) \<Rightarrow>
             await (if err
                    then ([Exec cmd, Log [Txt ''failed to start sandbox''], Log [Txt errout]],
                          Inl RejectedUndefined)
                    else ([Exec cmd, Log [Txt stdout]], Inr ())) (\<lambda>_.
             await (console_log [Txt ''starting sandbox...'']) (\<lambda>_.
             await ([LoadUserConfig], Inr (loadUserConfig w)) (\<lambda>config.
             await (createToolkit w ''bob'' config) (\<lambda>toolkit.
             await (retry (probe w toolkit) 8) (\<lambda>_.
             console_log [Txt ''sandbox started'']))))))"

text \<open>
  \<^verbatim>\<open>
  console.log(kleur.yellow(`originating balance inspector contract...`));
  const tezos = await createToolkit(orig_alias, config);
  const inspectorAddress = await originateInspector(tezos);
  config.set(inspectorKey(config), inspectorAddress);
  console.log(kleur.yellow(`originated balance inspector ${kleur.green(inspectorAddress)}`));
  \<close>
\<close>

definition originateBalanceInspector ::
  "('s, 'e, 'op, 'c, 'bn) world \<Rightarrow> Configstore \<Rightarrow> string \<Rightarrow> ('e, 'bn, unit) io" where
  "originateBalanceInspector w config orig_alias =
     await (console_log [Txt ''originating balance inspector contract...'']) (\<lambda>_.
     await (createToolkit w orig_alias config) (\<lambda>tezos.
     await (originateInspector w tezos) (\<lambda>inspectorAddress.
     case inspectorKey w config of
       Inl e \<Rightarrow> ([], Inl (External e))
     | Inr key \<Rightarrow>
         ([ConfigSet key (Str inspectorAddress),
           Log [Txt ''originated balance inspector '', Txt inspectorAddress]], Inr ()))))"

text \<open>
  \<^verbatim>\<open>
  try {
    const config = loadUserConfig();
    const network = config.get('activeNetwork');
    if (network === 'sandbox') await startSandbox();
    await originateBalanceInspector(config, 'bob');
  } catch (err) {
    console.log(kleur.red('failed to start. ' + JSON.stringify(err)));
    return Promise.reject(err);
  }
  \<close>
\<close>

definition bootstrap :: "('s, 'e, 'op, 'c, 'bn) world \<Rightarrow> ('e, 'bn, unit) io" where
  "bootstrap w =
     (case await ([LoadUserConfig], Inr (loadUserConfig w)) (\<lambda>config.
             let network = config ''activeNetwork''
             in await (if network = Str ''sandbox'' then startSandbox w else ([], Inr ())) (\<lambda>_.
                originateBalanceInspector w config ''bob'')) of
        (t, Inl err) \<Rightarrow> (t @ [LogError ''failed to start. '' err], Inl err)
      | (t, Inr u) \<Rightarrow> (t, Inr u))"

section \<open>Example environments\<close>

text \<open>
  A configuration with the sandbox as active network and no inspector address, and
  collaborators that know the aliases \<open>bob\<close> and \<open>alice\<close>. In \<open>sandbox_world\<close> the
  sandbox answers the eighth request for a block header; in \<open>unreachable_world\<close> it
  never answers; in \<open>rejecting_world\<close> every origination is rejected.
\<close>

definition sandbox_config :: Configstore where
  "sandbox_config key =
     (if key = ''activeNetwork'' then Str ''sandbox''
      else if key = ''availableNetworks.sandbox.providerUrl'' then Str ''http://localhost:20000''
      else Undefined)"

definition sandbox_world :: "(string, string, string, string, int) world" where
  "sandbox_world =
     \<lparr> loadUserConfig = sandbox_config,
       activeNetworkKey = (\<lambda>config. case config ''activeNetwork'' of
                             Str n \<Rightarrow> Inr (''availableNetworks.'' @ n)
                           | _ \<Rightarrow> Inl ''no active network selected''),
       inspectorKey = (\<lambda>config. case config ''activeNetwork'' of
                         Str n \<Rightarrow> Inr (''availableNetworks.'' @ n @ ''.inspector'')
                       | _ \<Rightarrow> Inl ''no active network selected''),
       loadFile = (\<lambda>path. Inr ''parameter unit; storage unit; code { CDR; NIL operation; PAIR }''),
       resolveAlias2Signer = (\<lambda>alias config.
                                if alias = ''bob'' then Inr ''edsk-bob''
                                else if alias = ''alice'' then Inr ''edsk-alice''
                                else Inl ''cannot resolve alias''),
       resolveAlias2Address = (\<lambda>alias config.
                                 if alias = ''bob'' then Inr ''tz1-bob''
                                 else if alias = ''alice'' then Inr ''tz1-alice''
                                 else Inl ''cannot resolve alias''),
       publicKeyHash = (\<lambda>sg. Inr ''tz1-bob''),
       originate = (\<lambda>tz param. Inr ''op-1''),
       contract = (\<lambda>op. Inr ''KT1-new''),
       contract_at = (\<lambda>tz address. Inr address),
       query_send = (\<lambda>c nftAddress requests. Inr ''op-2''),
       confirmation = (\<lambda>op. Inr ()),
       storage_state = (\<lambda>c. Inr (Some [])),
       exec = (\<lambda>cmd. (False, ''sandbox is up'', [])),
       getBlockHeader = (\<lambda>tz block n. if n < 8 then Inl ''connection refused'' else Inr ()) \<rparr>"

definition unreachable_world :: "(string, string, string, string, int) world" where
  "unreachable_world =
     sandbox_world\<lparr> getBlockHeader := (\<lambda>tz block n. Inl ''connection refused'') \<rparr>"

definition rejecting_world :: "(string, string, string, string, int) world" where
  "rejecting_world = sandbox_world\<lparr> originate := (\<lambda>tz param. Inl ''rejected'') \<rparr>"

definition sandbox_toolkit :: "string TezosToolkit" where
  "sandbox_toolkit =
     \<lparr> rpc = Str ''http://localhost:20000'', signer = ''edsk-bob'',
       confirmationPollingIntervalSecond = 5 \<rparr>"

section \<open>Properties of the string helpers\<close>

lemma descriptor_fields_abc [simp]:
  "descriptor_fields ''a,b,1'' = [''a'', ''b'', ''1'']"
  "descriptor_fields ''x,y,9'' = [''x'', ''y'', ''9'']"
  "descriptor_fields ''a,c,2'' = [''a'', ''c'', ''2'']"
  by (simp_all add: descriptor_fields_def trim_def is_ws_def)

lemma split_comma_nonempty: "split_comma s \<noteq> []"
  by (induction s) (auto split: list.splits)

lemma descriptor_fields_nonempty: "descriptor_fields d \<noteq> []"
  by (simp add: descriptor_fields_def split_comma_nonempty)

text \<open>Running a computation step by step.\<close>

lemma await_Inl [simp]: "await (t, Inl e) k = (t, Inl e)"
  by (simp add: await_def)

lemma await_Inr [simp]: "await (t, Inr a) k = (t @ fst (k a), snd (k a))"
  by (simp add: await_def split: prod.splits)

lemma call_Inl [simp]: "call ev (Inl e) = ([ev], Inl (External e))"
  by (simp add: call_def)

lemma call_Inr [simp]: "call ev (Inr a) = ([ev], Inr a)"
  by (simp add: call_def)

section \<open>Properties of \<^verbatim>\<open>parseTransfers\<close>\<close>

text \<open>
  What \<^verbatim>\<open>parseTransfers\<close> does on any batch: the entry it compares with, and extends,
  is the first one of the batch, while a new entry goes to the end.
\<close>

lemma parseTransfers_first_entry_rule:
  "parseTransfers bn d [] = [new_tx bn d]"
  "from' e = from' (new_tx bn d) \<Longrightarrow>
     parseTransfers bn d (e # es) = e\<lparr> txs := txs e @ txs (new_tx bn d) \<rparr> # es"
  "from' e \<noteq> from' (new_tx bn d) \<Longrightarrow>
     parseTransfers bn d (e # es) = (e # es) @ [new_tx bn d]"
  by (simp_all add: parseTransfers_def)

text \<open>
  C1. The claim: on a non-empty batch \<^verbatim>\<open>parseTransfers\<close> merges exactly when the
  last-added entry has the descriptor's sender, and appends a new entry otherwise.
  The code compares with \<^verbatim>\<open>batch[0]\<close>, the oldest entry. On the batch
  \<open>[a, x]\<close> the descriptor \<open>a,c,2\<close> is merged into the first entry although the last
  one has another sender, and on \<open>[x, a]\<close> it is appended as a third entry although
  the last one has the same sender.
\<close>

theorem parseTransfers_compares_first_entry:
  "parseTransfers bn ''a,c,2''
     [\<lparr>from' = Some ''a'', txs = [d1]\<rparr>, \<lparr>from' = Some ''x'', txs = [d2]\<rparr>]
   = [\<lparr>from' = Some ''a'',
       txs = [d1, \<lparr>to' = Some ''c'', Fa2TransferDestination.token_id = bn (Str ''2''),
                   amount = bn (Num 1)\<rparr>]\<rparr>,
      \<lparr>from' = Some ''x'', txs = [d2]\<rparr>]
   \<and> parseTransfers bn ''a,c,2''
     [\<lparr>from' = Some ''x'', txs = [d2]\<rparr>, \<lparr>from' = Some ''a'', txs = [d1]\<rparr>]
   = [\<lparr>from' = Some ''x'', txs = [d2]\<rparr>, \<lparr>from' = Some ''a'', txs = [d1]\<rparr>,
      \<lparr>from' = Some ''a'',
       txs = [\<lparr>to' = Some ''c'', Fa2TransferDestination.token_id = bn (Str ''2''),
               amount = bn (Num 1)\<rparr>]\<rparr>]"
  by (simp add: parseTransfers_def new_tx_def nth_opt_def)

text \<open>
  C2. The claim: the descriptors \<open>a,b,1\<close>, \<open>x,y,9\<close>, \<open>a,c,2\<close>, compiled in this order
  from the empty batch, give three entries. The code gives two: the third descriptor
  is merged into the first entry, which is not adjacent to it.
\<close>

theorem compileTransfers_three_descriptors:
  "compileTransfers bn [''a,b,1'', ''x,y,9'', ''a,c,2'']
   = [\<lparr>from' = Some ''a'',
       txs = [\<lparr>to' = Some ''b'', Fa2TransferDestination.token_id = bn (Str ''1''),
               amount = bn (Num 1)\<rparr>,
              \<lparr>to' = Some ''c'', Fa2TransferDestination.token_id = bn (Str ''2''),
               amount = bn (Num 1)\<rparr>]\<rparr>,
      \<lparr>from' = Some ''x'',
       txs = [\<lparr>to' = Some ''y'', Fa2TransferDestination.token_id = bn (Str ''9''),
               amount = bn (Num 1)\<rparr>]\<rparr>]
   \<and> length (compileTransfers bn [''a,b,1'', ''x,y,9'', ''a,c,2'']) = 2"
  by (simp add: compileTransfers_def parseTransfers_def new_tx_def nth_opt_def)

section \<open>Properties of \<^verbatim>\<open>parseTokens\<close>\<close>

lemma new_token_decimals: "decimals (new_token bn d) = bn (Num 0)"
  by (simp add: new_token_def Let_def split: option.splits)

lemma new_token_extras:
  "extras (new_token bn d) =
     (if 3 < length (descriptor_fields d) \<and> descriptor_fields d ! 3 \<noteq> []
      then [''ipfs_cid'' \<mapsto> descriptor_fields d ! 3] else Map.empty)"
  by (simp add: new_token_def Let_def nth_opt_def split: option.splits)

lemma foldl_parseTokens:
  "foldl (\<lambda>ts d. parseTokens bn d ts) acc ds = rev (map (new_token bn) ds) @ acc"
  by (induction ds arbitrary: acc) (simp_all add: parseTokens_def)

text \<open>
  C10. \<^verbatim>\<open>parseTokens\<close> puts the token it parses in front of the list it is given and
  leaves that list as it is, so the tokens of successive descriptors end up in reverse
  order. The new token has \<open>decimals\<close> 0. Its \<open>extras\<close> hold a value for \<open>ipfs_cid\<close>
  exactly when the descriptor has a fourth field that is not empty, the fields being
  the comma-separated parts with white space trimmed at both ends, as the source
  reads them; the value is that field, and \<open>extras\<close> hold no other key.
\<close>

theorem parseTokens_prepends:
  "tl (parseTokens bn d tokens) = tokens
   \<and> length (parseTokens bn d tokens) = Suc (length tokens)
   \<and> decimals (hd (parseTokens bn d tokens)) = bn (Num 0)
   \<and> (''ipfs_cid'' \<in> dom (extras (hd (parseTokens bn d tokens)))
        \<longleftrightarrow> 3 < length (descriptor_fields d) \<and> descriptor_fields d ! 3 \<noteq> [])
   \<and> dom (extras (hd (parseTokens bn d tokens))) \<subseteq> {''ipfs_cid''}
   \<and> (3 < length (descriptor_fields d) \<and> descriptor_fields d ! 3 \<noteq> [] \<longrightarrow>
         extras (hd (parseTokens bn d tokens)) ''ipfs_cid'' = Some (descriptor_fields d ! 3))
   \<and> foldl (\<lambda>ts d. parseTokens bn d ts) [] ds
       = rev (map (\<lambda>d. hd (parseTokens bn d [])) ds)"
proof -
  have order: "foldl (\<lambda>ts d. parseTokens bn d ts) [] ds
       = rev (map (\<lambda>d. hd (parseTokens bn d [])) ds)"
    using foldl_parseTokens [of bn "[]" ds] by (simp add: parseTokens_def)
  have rest: "tl (parseTokens bn d tokens) = tokens
   \<and> length (parseTokens bn d tokens) = Suc (length tokens)
   \<and> decimals (hd (parseTokens bn d tokens)) = bn (Num 0)
   \<and> (''ipfs_cid'' \<in> dom (extras (hd (parseTokens bn d tokens)))
        \<longleftrightarrow> 3 < length (descriptor_fields d) \<and> descriptor_fields d ! 3 \<noteq> [])
   \<and> dom (extras (hd (parseTokens bn d tokens))) \<subseteq> {''ipfs_cid''}
   \<and> (3 < length (descriptor_fields d) \<and> descriptor_fields d ! 3 \<noteq> [] \<longrightarrow>
         extras (hd (parseTokens bn d tokens)) ''ipfs_cid'' = Some (descriptor_fields d ! 3))"
    by (simp add: parseTokens_def new_token_decimals new_token_extras)
  from rest order show ?thesis by blast
qed

theorem parseTokens_prepends_witness:
  "3 < length (descriptor_fields ''0, TK1, Token one, Qm123 '')
   \<and> descriptor_fields ''0, TK1, Token one, Qm123 '' ! 3 \<noteq> []
   \<and> extras (hd (parseTokens (\<lambda>v. v) ''0, TK1, Token one, Qm123 '' [])) ''ipfs_cid''
       = Some ''Qm123''
   \<and> ''ipfs_cid'' \<notin> dom (extras (hd (parseTokens (\<lambda>v. v) ''1,TK2,two'' [])))
   \<and> ''ipfs_cid'' \<notin> dom (extras (hd (parseTokens (\<lambda>v. v) ''1,TK2,two,  '' [])))"
  using parseTokens_prepends [of "\<lambda>v. v" "''0, TK1, Token one, Qm123 ''" "[]"]
        parseTokens_prepends [of "\<lambda>v. v" "''1,TK2,two''" "[]"]
        parseTokens_prepends [of "\<lambda>v. v" "''1,TK2,two,  ''" "[]"]
  by (simp add: descriptor_fields_def trim_def is_ws_def)

section \<open>Properties of \<^verbatim>\<open>createNftStorage\<close>\<close>

text \<open>
  The two maps the loop of \<^verbatim>\<open>createNftStorage\<close> builds are the maps of the reversed
  token list: of several entries with one \<open>token_id\<close>, the last one is found.
\<close>

lemma createNftStorage_loop_maps:
  "createNftStorage_loop tokens ownr (lgr, tmd) =
     (lgr ++ map_of (rev (map (\<lambda>m. (TokenMetadata.token_id m, ownr)) tokens)),
      tmd ++ map_of (rev (map (\<lambda>m. (TokenMetadata.token_id m, m)) tokens)))"
proof (induction tokens arbitrary: lgr tmd)
  case Nil
  show ?case by simp
next
  case (Cons m ms)
  have l: "lgr(TokenMetadata.token_id m \<mapsto> ownr) = lgr ++ [TokenMetadata.token_id m \<mapsto> ownr]"
    by simp
  have t: "tmd(TokenMetadata.token_id m \<mapsto> m) = tmd ++ [TokenMetadata.token_id m \<mapsto> m]"
    by simp
  show ?case
    unfolding createNftStorage_loop.simps Cons.IH l t
    by (simp del: map_add_upd)
qed

lemma map_of_rev_last_wins:
  assumes "kvs = xs @ (k, v) # ys" and "k \<notin> fst ` set ys"
  shows "map_of (rev kvs) k = Some v"
proof -
  have "map_of (rev ys) k = None"
    using assms(2) by (simp add: map_of_eq_None_iff)
  then show ?thesis
    using assms(1) by (simp add: map_add_def)
qed

lemma ledger_createNftStorage:
  "ledger (createNftStorage tokens ownr) = map_of (rev (map (\<lambda>m. (TokenMetadata.token_id m, ownr)) tokens))"
  by (simp add: createNftStorage_def createNftStorage_loop_maps)

lemma token_metadata_createNftStorage:
  "token_metadata (createNftStorage tokens ownr) = map_of (rev (map (\<lambda>m. (TokenMetadata.token_id m, m)) tokens))"
  by (simp add: createNftStorage_def createNftStorage_loop_maps)

lemma last_wins_ledger:
  assumes "tokens = xs @ m # ys" and "TokenMetadata.token_id m \<notin> TokenMetadata.token_id ` set ys"
  shows "ledger (createNftStorage tokens ownr) (TokenMetadata.token_id m) = Some ownr"
  unfolding ledger_createNftStorage
  by (rule map_of_rev_last_wins [where xs = "map (\<lambda>m. (TokenMetadata.token_id m, ownr)) xs"
        and ys = "map (\<lambda>m. (TokenMetadata.token_id m, ownr)) ys"])
     (use assms in \<open>auto simp: image_image\<close>)

lemma last_wins_metadata:
  assumes "tokens = xs @ m # ys" and "TokenMetadata.token_id m \<notin> TokenMetadata.token_id ` set ys"
  shows "token_metadata (createNftStorage tokens ownr) (TokenMetadata.token_id m) = Some m"
  unfolding token_metadata_createNftStorage
  by (rule map_of_rev_last_wins [where xs = "map (\<lambda>m. (TokenMetadata.token_id m, m)) xs"
        and ys = "map (\<lambda>m. (TokenMetadata.token_id m, m)) ys"])
     (use assms in \<open>auto simp: image_image\<close>)

lemma distinct_metadata:
  assumes "distinct (map TokenMetadata.token_id tokens)" and "m \<in> set tokens"
  shows "token_metadata (createNftStorage tokens ownr) (TokenMetadata.token_id m) = Some m"
proof -
  obtain xs ys where split: "tokens = xs @ m # ys"
    using assms(2) by (auto simp: in_set_conv_decomp)
  have "TokenMetadata.token_id m \<notin> TokenMetadata.token_id ` set ys"
    using assms(1) unfolding split by auto
  with split show ?thesis by (rule last_wins_metadata)
qed

lemma every_token_owned:
  assumes "m \<in> set tokens"
  shows "ledger (createNftStorage tokens ownr) (TokenMetadata.token_id m) = Some ownr"
proof -
  have "map_of (rev (map (\<lambda>m. (TokenMetadata.token_id m, ownr)) tokens)) k = Some v \<Longrightarrow> v = ownr" for k v
    by (auto dest!: map_of_SomeD)
  moreover have "TokenMetadata.token_id m \<in> dom (map_of (rev (map (\<lambda>m. (TokenMetadata.token_id m, ownr)) tokens)))"
    using assms by (auto simp: dom_map_of_conv_image_fst image_image)
  ultimately show ?thesis
    unfolding ledger_createNftStorage by blast
qed

lemma dom_ledger:
  "dom (ledger (createNftStorage tokens ownr)) = TokenMetadata.token_id ` set tokens"
  unfolding ledger_createNftStorage by (auto simp: dom_map_of_conv_image_fst image_image)

lemma dom_token_metadata:
  "dom (token_metadata (createNftStorage tokens ownr)) = TokenMetadata.token_id ` set tokens"
  unfolding token_metadata_createNftStorage by (auto simp: dom_map_of_conv_image_fst image_image)


text \<open>
  C3. The storage \<^verbatim>\<open>createNftStorage\<close> returns has no operators; its ledger maps the
  \<open>token_id\<close> of every listed token to the owner, and nothing else; when the
  \<open>token_id\<close>s are pairwise distinct its metadata map gives every listed token under
  its \<open>token_id\<close>; and in general the last entry with a given \<open>token_id\<close> is the one
  both maps hold.
\<close>

theorem createNftStorage_maps:
  "operators (createNftStorage tokens ownr) = Map.empty
   \<and> (\<forall>m \<in> set tokens.
        ledger (createNftStorage tokens ownr) (TokenMetadata.token_id m) = Some ownr)
   \<and> dom (ledger (createNftStorage tokens ownr)) = TokenMetadata.token_id ` set tokens
   \<and> dom (token_metadata (createNftStorage tokens ownr)) = TokenMetadata.token_id ` set tokens
   \<and> (distinct (map TokenMetadata.token_id tokens) \<longrightarrow>
        (\<forall>m \<in> set tokens.
           token_metadata (createNftStorage tokens ownr) (TokenMetadata.token_id m) = Some m))
   \<and> (\<forall>xs m ys.
        tokens = xs @ m # ys \<and> TokenMetadata.token_id m \<notin> TokenMetadata.token_id ` set ys \<longrightarrow>
          ledger (createNftStorage tokens ownr) (TokenMetadata.token_id m) = Some ownr
          \<and> token_metadata (createNftStorage tokens ownr) (TokenMetadata.token_id m) = Some m)"
proof (intro conjI ballI allI impI)
  show "operators (createNftStorage tokens ownr) = Map.empty"
    by (simp add: createNftStorage_def split: prod.splits)
qed (simp_all add: every_token_owned dom_ledger dom_token_metadata distinct_metadata
       last_wins_ledger last_wins_metadata)

theorem createNftStorage_maps_witness:
  "distinct (map TokenMetadata.token_id
     [\<lparr>TokenMetadata.token_id = 1::int, symbol = Some ''A'', name = Some ''first'',
       decimals = 0, extras = Map.empty\<rparr>,
      \<lparr>TokenMetadata.token_id = 2, symbol = Some ''B'', name = Some ''second'',
       decimals = 0, extras = Map.empty\<rparr>])
   \<and> ledger (createNftStorage
       [\<lparr>TokenMetadata.token_id = 1::int, symbol = Some ''A'', name = Some ''first'',
         decimals = 0, extras = Map.empty\<rparr>,
        \<lparr>TokenMetadata.token_id = 2, symbol = Some ''B'', name = Some ''second'',
         decimals = 0, extras = Map.empty\<rparr>] ''tz1owner'') 2 = Some ''tz1owner''
   \<and> token_metadata (createNftStorage
       [\<lparr>TokenMetadata.token_id = 1::int, symbol = Some ''A'', name = Some ''first'',
         decimals = 0, extras = Map.empty\<rparr>,
        \<lparr>TokenMetadata.token_id = 2, symbol = Some ''B'', name = Some ''second'',
         decimals = 0, extras = Map.empty\<rparr>] ''tz1owner'') 1
     = Some \<lparr>TokenMetadata.token_id = 1::int, symbol = Some ''A'', name = Some ''first'',
         decimals = 0, extras = Map.empty\<rparr>
   \<and> token_metadata (createNftStorage
       [\<lparr>TokenMetadata.token_id = 1::int, symbol = Some ''A'', name = Some ''first'',
         decimals = 0, extras = Map.empty\<rparr>,
        \<lparr>TokenMetadata.token_id = 1, symbol = Some ''B'', name = Some ''second'',
         decimals = 0, extras = Map.empty\<rparr>] ''tz1owner'') 1
     = Some \<lparr>TokenMetadata.token_id = 1::int, symbol = Some ''B'', name = Some ''second'',
         decimals = 0, extras = Map.empty\<rparr>"
  using createNftStorage_maps
          [of "[\<lparr>TokenMetadata.token_id = 1::int, symbol = Some ''A'', name = Some ''first'',
                  decimals = 0, extras = Map.empty\<rparr>,
                \<lparr>TokenMetadata.token_id = 2, symbol = Some ''B'', name = Some ''second'',
                  decimals = 0, extras = Map.empty\<rparr>]" "''tz1owner''"]
        createNftStorage_maps
          [of "[\<lparr>TokenMetadata.token_id = 1::int, symbol = Some ''A'', name = Some ''first'',
                  decimals = 0, extras = Map.empty\<rparr>,
                \<lparr>TokenMetadata.token_id = 1, symbol = Some ''B'', name = Some ''second'',
                  decimals = 0, extras = Map.empty\<rparr>]" "''tz1owner''"]
  by (simp add: createNftStorage_def)

section \<open>Properties of \<^verbatim>\<open>mintNfts\<close>\<close>

text \<open>
  C9. With an empty list of token definitions \<^verbatim>\<open>mintNfts\<close> rejects with the text
  \<open>there are no token definitions provided\<close> and causes no event: no configuration is
  loaded, no signer resolved, no toolkit built, nothing originated.
\<close>

theorem mintNfts_no_tokens:
  "mintNfts w ownr [] = ([], Inl (Rejected ''there are no token definitions provided''))"
  by (simp add: mintNfts_def)

section \<open>Properties of \<^verbatim>\<open>createToolkitFromSigner\<close>\<close>

lemma createToolkitFromSigner_cases:
  assumes "activeNetworkKey w config = Inr key"
  shows "\<not> truthy (config (key @ ''.providerUrl'')) \<Longrightarrow>
           createToolkitFromSigner w sg config =
             ([Log [Txt ''network provider for '', Val (config ''activeNetwork''),
                    Txt '' URL is not configured'']],
              Inl (Error [Txt ''network provider for '', Val (config ''activeNetwork''),
                          Txt '' URL is not configured'']))"
    and "truthy (config (key @ ''.providerUrl'')) \<Longrightarrow>
           createToolkitFromSigner w sg config =
             ([NewToolkit (config (key @ ''.providerUrl''))],
              Inr \<lparr> rpc = config (key @ ''.providerUrl''), signer = sg,
                    confirmationPollingIntervalSecond = 5 \<rparr>)"
  using assms by (simp_all add: createToolkitFromSigner_def Let_def)

text \<open>
  C7. \<open>key\<close> being the configuration key of the active network,
  \<^verbatim>\<open>createToolkitFromSigner\<close> fails when the configuration holds no provider URL under
  \<open>key.providerUrl\<close> (no value, or a value JavaScript takes as false), and otherwise
  returns a toolkit for that URL and the given signer whose confirmation polling
  interval is 5 seconds.
\<close>

theorem createToolkitFromSigner_provider:
  assumes "activeNetworkKey w config = Inr key"
  shows "(\<not> truthy (config (key @ ''.providerUrl'')) \<longrightarrow>
            (\<exists>t e. createToolkitFromSigner w sg config = (t, Inl e)))
       \<and> (truthy (config (key @ ''.providerUrl'')) \<longrightarrow>
            (\<exists>t tk. createToolkitFromSigner w sg config = (t, Inr tk)
               \<and> confirmationPollingIntervalSecond tk = 5
               \<and> rpc tk = config (key @ ''.providerUrl'') \<and> signer tk = sg))"
  using createToolkitFromSigner_cases [OF assms, of sg] by auto

theorem createToolkitFromSigner_provider_witness:
  "activeNetworkKey sandbox_world sandbox_config = Inr ''availableNetworks.sandbox''
   \<and> truthy (sandbox_config (''availableNetworks.sandbox'' @ ''.providerUrl''))
   \<and> (\<exists>t tk. createToolkitFromSigner sandbox_world ''edsk-bob'' sandbox_config = (t, Inr tk)
         \<and> confirmationPollingIntervalSecond tk = 5)
   \<and> activeNetworkKey sandbox_world (\<lambda>key. if key = ''activeNetwork'' then Str ''mainnet'' else Undefined)
        = Inr ''availableNetworks.mainnet''
   \<and> \<not> truthy ((\<lambda>key. if key = ''activeNetwork'' then Str ''mainnet'' else Undefined)
                   (''availableNetworks.mainnet'' @ ''.providerUrl''))
   \<and> (\<exists>t e. createToolkitFromSigner sandbox_world ''edsk-bob''
                 (\<lambda>key. if key = ''activeNetwork'' then Str ''mainnet'' else Undefined) = (t, Inl e))"
proof -
  have k1: "activeNetworkKey sandbox_world sandbox_config = Inr ''availableNetworks.sandbox''"
    by (simp add: sandbox_world_def sandbox_config_def)
  have k2: "activeNetworkKey sandbox_world
              (\<lambda>key. if key = ''activeNetwork'' then Str ''mainnet'' else Undefined)
            = Inr ''availableNetworks.mainnet''"
    by (simp add: sandbox_world_def)
  show ?thesis
    using k1 k2 createToolkitFromSigner_provider [OF k1, of "''edsk-bob''"]
      createToolkitFromSigner_provider [OF k2, of "''edsk-bob''"]
    by (auto simp: sandbox_config_def)
qed

section \<open>Properties of \<^verbatim>\<open>originateContract\<close>\<close>

lemma originateContract_submits_once:
  "count_list (fst (originateContract w tz code storage name'))
     (Originate (make_origParam code storage)) = 1
   \<and> (\<forall>p. Originate p \<in> set (fst (originateContract w tz code storage name'))
          \<longrightarrow> p = make_origParam code storage)"
  by (cases "originate w tz (make_origParam code storage)";
      cases "contract w (projr (originate w tz (make_origParam code storage)))")
     (auto simp: originateContract_def Let_def)

text \<open>
  C6. The claim: a rejected submission makes \<^verbatim>\<open>originateContract\<close> return a failure that
  carries the label, after a single submission. The failure the code returns is the
  error of the submission itself: in an environment that rejects every origination,
  the labels \<open>nft\<close> and \<open>inspector\<close> give the same failure, which holds no label.
\<close>

theorem originateContract_rejection_counterexample:
  "snd (originateContract rejecting_world sandbox_toolkit ''code'' (StorageString ''(Left Unit)'') ''nft'')
     = Inl (External ''rejected'')
   \<and> snd (originateContract rejecting_world sandbox_toolkit ''code'' (StorageString ''(Left Unit)'') ''inspector'')
     = Inl (External ''rejected'')"
  by (simp add: originateContract_def rejecting_world_def sandbox_world_def Let_def)


text \<open>
  C6, as the code has it: when the submission is rejected with \<open>e\<close>,
  \<^verbatim>\<open>originateContract\<close> submits once, writes one line with the label and the error to
  the console, and rejects with \<open>e\<close> unchanged.
\<close>

theorem originateContract_rejected:
  assumes "originate w tz (make_origParam code storage) = Inl e"
  shows "originateContract w tz code storage name' =
           ([Originate (make_origParam code storage),
             LogError (name' @ '' origination error '') (External e)],
            Inl (External e))"
  using assms by (simp add: originateContract_def Let_def)

theorem originateContract_rejected_witness:
  "originate rejecting_world sandbox_toolkit
     (make_origParam ''code'' (StorageString ''(Left Unit)'')) = Inl ''rejected''
   \<and> originateContract rejecting_world sandbox_toolkit ''code'' (StorageString ''(Left Unit)'')
       ''inspector'' =
       ([Originate (CodeInit ''code'' ''(Left Unit)''),
         LogError ''inspector origination error '' (External ''rejected'')],
        Inl (External ''rejected''))"
proof -
  have h: "originate rejecting_world sandbox_toolkit
             (make_origParam ''code'' (StorageString ''(Left Unit)'')) = Inl ''rejected''"
    by (simp add: rejecting_world_def sandbox_world_def)
  show ?thesis
    using h originateContract_rejected [OF h, of "''inspector''"]
    by (simp add: make_origParam_def)
qed

section \<open>Properties of \<^verbatim>\<open>showBalances\<close>\<close>

lemma createToolkit_bob:
  "createToolkit sandbox_world ''bob'' sandbox_config =
     ([ResolveAlias2Signer ''bob'', NewToolkit (Str ''http://localhost:20000'')], Inr sandbox_toolkit)"
  by (simp add: createToolkit_def createToolkitFromSigner_def sandbox_world_def
        sandbox_config_def sandbox_toolkit_def Let_def)

text \<open>
  C8. The claim: without an inspector address in the configuration, \<^verbatim>\<open>showBalances\<close>
  fails. In the example configuration the inspector key holds nothing, and
  \<^verbatim>\<open>showBalances\<close> completes normally.
\<close>

theorem showBalances_counterexample:
  "loadUserConfig sandbox_world ''availableNetworks.sandbox.inspector'' = Undefined
   \<and> inspectorKey sandbox_world (loadUserConfig sandbox_world) = Inr ''availableNetworks.sandbox.inspector''
   \<and> snd (showBalances sandbox_world (\<lambda>v. 0) ''bob'' ''alice'' ''bob'' [''0'', ''1'']) = Inr ()"
  by (simp add: showBalances_def createToolkit_def createToolkitFromSigner_def sandbox_world_def
        sandbox_config_def Let_def)

text \<open>
  C8, as the code has it: when the toolkit is built (the signer resolves and a
  provider URL is configured), owner and contract are resolved, the inspector key is
  computed, and the configuration holds no string (or the empty string) under that
  key, \<^verbatim>\<open>showBalances\<close> tells the user that no inspector contract is deployed,
  suggests the command \<open>bootstrap\<close>, sends no query and completes normally.
\<close>

theorem showBalances_without_inspector:
  assumes "createToolkit w sg (loadUserConfig w) = (t, Inr tz)"
    and "resolveAlias2Address w ownr (loadUserConfig w) = Inr ownerAddress"
    and "resolveAlias2Address w nft (loadUserConfig w) = Inr nftAddress"
    and "inspectorKey w (loadUserConfig w) = Inr key"
    and "\<not> truthy (loadUserConfig w key) \<or> \<not> is_string (loadUserConfig w key)"
  shows "showBalances w bn sg nft ownr tokens =
           ([LoadUserConfig] @ t @
            [ResolveAlias2Address ownr, ResolveAlias2Address nft,
             Log [Txt ''Cannot find deployed balance inspector contract.''],
             SuggestCommand ''bootstrap''],
            Inr ())"
  using assms by (simp add: showBalances_def Let_def)

theorem showBalances_without_inspector_witness:
  "createToolkit sandbox_world ''bob'' (loadUserConfig sandbox_world) =
     ([ResolveAlias2Signer ''bob'', NewToolkit (Str ''http://localhost:20000'')], Inr sandbox_toolkit)
   \<and> resolveAlias2Address sandbox_world ''bob'' (loadUserConfig sandbox_world) = Inr ''tz1-bob''
   \<and> resolveAlias2Address sandbox_world ''alice'' (loadUserConfig sandbox_world) = Inr ''tz1-alice''
   \<and> inspectorKey sandbox_world (loadUserConfig sandbox_world) = Inr ''availableNetworks.sandbox.inspector''
   \<and> \<not> truthy (loadUserConfig sandbox_world ''availableNetworks.sandbox.inspector'')
   \<and> showBalances sandbox_world (\<lambda>v. 0) ''bob'' ''alice'' ''bob'' [''0'', ''1''] =
       ([LoadUserConfig, ResolveAlias2Signer ''bob'', NewToolkit (Str ''http://localhost:20000''),
         ResolveAlias2Address ''bob'', ResolveAlias2Address ''alice'',
         Log [Txt ''Cannot find deployed balance inspector contract.''],
         SuggestCommand ''bootstrap''],
        Inr ())"
proof -
  have cfg: "loadUserConfig sandbox_world = sandbox_config"
    by (simp add: sandbox_world_def)
  have h1: "createToolkit sandbox_world ''bob'' (loadUserConfig sandbox_world) =
     ([ResolveAlias2Signer ''bob'', NewToolkit (Str ''http://localhost:20000'')], Inr sandbox_toolkit)"
    unfolding cfg by (rule createToolkit_bob)
  have h2: "resolveAlias2Address sandbox_world ''bob'' (loadUserConfig sandbox_world) = Inr ''tz1-bob''"
    by (simp add: sandbox_world_def)
  have h3: "resolveAlias2Address sandbox_world ''alice'' (loadUserConfig sandbox_world) = Inr ''tz1-alice''"
    by (simp add: sandbox_world_def)
  have h4: "inspectorKey sandbox_world (loadUserConfig sandbox_world) = Inr ''availableNetworks.sandbox.inspector''"
    by (simp add: sandbox_world_def sandbox_config_def)
  have h5: "\<not> truthy (loadUserConfig sandbox_world ''availableNetworks.sandbox.inspector'')"
    by (simp add: sandbox_world_def sandbox_config_def)
  from h5 have h5': "\<not> truthy (loadUserConfig sandbox_world ''availableNetworks.sandbox.inspector'')
      \<or> \<not> is_string (loadUserConfig sandbox_world ''availableNetworks.sandbox.inspector'')"
    by simp
  show ?thesis
    using h1 h2 h3 h4 h5
      showBalances_without_inspector [OF h1 h2 h3 h4 h5', of "\<lambda>v. 0" "[''0'', ''1'']"]
    by simp
qed

section \<open>Properties of \<^verbatim>\<open>resolveOperators\<close>\<close>

lemma resolveOperator_result:
  "snd (snd (resolveOperator w bn ownr config d)) =
     (case resolveAlias2Address w (hd (split_comma d)) config of
        Inl e \<Rightarrow> Inl (External e)
      | Inr a \<Rightarrow> Inr \<lparr> owner = ownr, operator = a,
                       token_id = bn (of_field (nth_opt (split_comma d) 1)) \<rparr>)"
  by (simp add: resolveOperator_def Let_def split: sum.splits)

lemma all_values_map_Inr: "all_values (map Inr vs) = Inr vs"
  by (induction vs) simp_all

lemma all_values_Inr_iff:
  "all_values rs = Inr vs \<longleftrightarrow> rs = map Inr vs"
proof
  show "all_values rs = Inr vs \<Longrightarrow> rs = map Inr vs"
    by (induction rs arbitrary: vs) (auto split: sum.splits)
qed (simp add: all_values_map_Inr)

lemma all_values_Inl_iff:
  "(\<exists>e. all_values rs = Inl e) \<longleftrightarrow> (\<exists>r \<in> set rs. \<exists>e. r = Inl e)"
  by (induction rs) (auto split: sum.splits)

lemma snd_Promise_all: "snd (Promise_all ps) = all_values (map (\<lambda>p. snd (snd p)) ps)"
  by (simp add: Promise_all_def)

text \<open>
  The part of the join that holds. \<^verbatim>\<open>resolveOperators\<close> fails exactly when the
  operator of one entry does not resolve; the list it returns otherwise has one
  element for every entry, so no partial list is returned. The list \<open>bob,1\<close>,
  \<open>!!!bad!!!\<close> fails whenever \<open>!!!bad!!!\<close> does not resolve.
\<close>

lemma resolveOperators_fails_iff:
  "(\<exists>e. snd (resolveOperators w bn ownr ops config) = Inl e) \<longleftrightarrow>
     (\<exists>d \<in> set ops. \<exists>e. resolveAlias2Address w (hd (split_comma d)) config = Inl e)"
proof -
  have "(\<exists>e. snd (snd (resolveOperator w bn ownr config d)) = Inl e) \<longleftrightarrow>
          (\<exists>e. resolveAlias2Address w (hd (split_comma d)) config = Inl e)" for d
    by (cases "resolveAlias2Address w (hd (split_comma d)) config")
       (simp_all add: resolveOperator_result)
  then show ?thesis
    by (simp add: resolveOperators_def snd_Promise_all all_values_Inl_iff)
qed

lemma resolveOperators_full_list:
  assumes "snd (resolveOperators w bn ownr ops config) = Inr ps"
  shows "length ps = length ops"
    and "i < length ops \<Longrightarrow> snd (snd (resolveOperator w bn ownr config (ops ! i))) = Inr (ps ! i)"
proof -
  from assms
  have eq: "map (\<lambda>d. snd (snd (resolveOperator w bn ownr config d))) ops = map Inr ps"
    by (simp add: resolveOperators_def snd_Promise_all all_values_Inr_iff comp_def)
  then show len: "length ps = length ops"
    by (metis length_map)
  show "snd (snd (resolveOperator w bn ownr config (ops ! i))) = Inr (ps ! i)"
    if "i < length ops"
    using that len nth_map [of i ops "\<lambda>d. snd (snd (resolveOperator w bn ownr config d))"]
      nth_map [of i ps Inr] eq by simp
qed

lemma resolveOperators_bad_entry:
  assumes "resolveAlias2Address w ''!!!bad!!!'' config = Inl e"
  shows "\<exists>e'. snd (resolveOperators w bn ownr [''bob,1'', ''!!!bad!!!''] config) = Inl e'"
  unfolding resolveOperators_fails_iff using assms by simp

text \<open>
  C4. The claim: when one entry of the list fails to parse or to resolve, the whole
  call fails. The code fails only when an operator does not resolve. The entries
  \<open>alice\<close>, which has no token_id, and \<open>alice,!!!bad!!!,x,y\<close> do not have the format
  \<open>operator_alias_or_address, token_id\<close> that the code's own message asks for; with
  \<open>alice\<close> a known alias, \<^verbatim>\<open>resolveOperators\<close> returns the full list for both, no message
  is written, and the token_id of the second element is \<^verbatim>\<open>new BigNumber(undefined)\<close>
  and \<^verbatim>\<open>new BigNumber('!!!bad!!!')\<close>.
\<close>

theorem resolveOperators_accepts_malformed_entry:
  "resolveOperators sandbox_world bn ''tz1-bob'' [''bob,1'', ''alice''] sandbox_config
     = ([ResolveAlias2Address ''bob'', ResolveAlias2Address ''alice''],
        Inr [\<lparr>owner = ''tz1-bob'', operator = ''tz1-bob'', token_id = bn (Str ''1'')\<rparr>,
             \<lparr>owner = ''tz1-bob'', operator = ''tz1-alice'', token_id = bn Undefined\<rparr>])
   \<and> resolveOperators sandbox_world bn ''tz1-bob'' [''bob,1'', ''alice,!!!bad!!!,x,y'']
       sandbox_config
     = ([ResolveAlias2Address ''bob'', ResolveAlias2Address ''alice''],
        Inr [\<lparr>owner = ''tz1-bob'', operator = ''tz1-bob'', token_id = bn (Str ''1'')\<rparr>,
             \<lparr>owner = ''tz1-bob'', operator = ''tz1-alice'',
              token_id = bn (Str ''!!!bad!!!'')\<rparr>])"
  by (simp add: resolveOperators_def Promise_all_def resolveOperator_def nth_opt_def
        sandbox_world_def Let_def)

section \<open>Properties of \<^verbatim>\<open>bootstrap\<close>\<close>

lemma run_attempts_succeeds:
  assumes "k \<le> left" and "\<forall>i<k. \<exists>e. snd (fn (num + i)) = Inl e" and "snd (fn (num + k)) = Inr v"
  shows "run_attempts fn left num errs =
           (concat (map (\<lambda>i. fst (fn (num + i))) [0..<Suc k]), Inr v)"
  using assms
proof (induction left arbitrary: k num errs)
  case 0
  then show ?case by (cases "fn num") simp
next
  case (Suc left)
  show ?case
  proof (cases k)
    case 0
    with Suc.prems show ?thesis by (cases "fn num") simp
  next
    case (Suc k')
    from Suc.prems(2) Suc obtain e where e: "snd (fn num) = Inl e"
      by fastforce
    have later: "\<forall>i<k'. \<exists>e. snd (fn (Suc num + i)) = Inl e"
      using Suc.prems(2) Suc by fastforce
    have last: "snd (fn (Suc num + k')) = Inr v"
      using Suc.prems(3) Suc by simp
    have "k' \<le> left"
      using Suc.prems(1) Suc by simp
    from Suc.IH [OF this later last]
    have "run_attempts fn left (Suc num) (errs @ [e]) =
            (concat (map (\<lambda>i. fst (fn (Suc num + i))) [0..<Suc k']), Inr v)" .
    with e Suc show ?thesis
      by (cases "fn num") (simp add: map_upt_Suc del: upt_Suc)
  qed
qed

lemma run_attempts_exhausted:
  assumes "\<forall>i\<le>left. \<exists>e. snd (fn (num + i)) = Inl e"
  shows "\<exists>es. length es = Suc left \<and>
           run_attempts fn left num errs =
             (concat (map (\<lambda>i. fst (fn (num + i))) [0..<Suc left]),
              Inl (RetriesExhausted (errs @ es)))"
  using assms
proof (induction left arbitrary: num errs)
  case 0
  then obtain e where "snd (fn num) = Inl e" by fastforce
  then have "run_attempts fn 0 num errs = (fst (fn num), Inl (RetriesExhausted (errs @ [e])))"
    by (cases "fn num") simp
  then show ?case by (intro exI [of _ "[e]"]) simp
next
  case (Suc left)
  from Suc.prems obtain e where e: "snd (fn num) = Inl e" by fastforce
  have "\<forall>i\<le>left. \<exists>e. snd (fn (Suc num + i)) = Inl e"
    using Suc.prems by fastforce
  from Suc.IH [OF this, of "errs @ [e]"] obtain es where es: "length es = Suc left"
    and run: "run_attempts fn left (Suc num) (errs @ [e]) =
             (concat (map (\<lambda>i. fst (fn (Suc num + i))) [0..<Suc left]),
              Inl (RetriesExhausted ((errs @ [e]) @ es)))"
    by blast
  have "run_attempts fn (Suc left) num errs =
          (concat (map (\<lambda>i. fst (fn (num + i))) [0..<Suc (Suc left)]),
           Inl (RetriesExhausted (errs @ (e # es))))"
    using e run by (cases "fn num") (simp add: map_upt_Suc del: upt_Suc)
  with es show ?case by (intro exI [of _ "e # es"]) simp
qed

lemma count_probe_trace:
  "count_list (concat (map (\<lambda>i. fst (probe w tk (f i))) xs)) (GetBlockHeader b)
     = (if b = ''2'' then length xs else 0)"
  by (induction xs) (auto simp: probe_def)

lemma snd_probe: "snd (probe w tk n) = getBlockHeader w tk ''2'' n"
  by (simp add: probe_def)

lemma originateBalanceInspector_no_retry:
  "snd (originateBalanceInspector w config a) \<noteq> Inl (RetriesExhausted es)"
  by (auto simp: originateBalanceInspector_def originateInspector_def originateContract_def
        createToolkit_def createToolkitFromSigner_def console_log_def await_def call_def Let_def
        split: sum.splits prod.splits if_splits)


lemma startSandbox_after_retry:
  assumes "exec w ''sh ../../nft-contracts/flextesa/start-sandbox.sh'' = (False, out, errout)"
    and "createToolkit w ''bob'' (loadUserConfig w) = (t, Inr toolkit)"
    and "retry (probe w toolkit) 8 = (tr, r)"
  shows "startSandbox w =
           ([Exec ''sh ../../nft-contracts/flextesa/start-sandbox.sh'', Log [Txt out],
             Log [Txt ''starting sandbox...''], LoadUserConfig] @ t @ tr @
            (case r of Inl e \<Rightarrow> [] | Inr u \<Rightarrow> [Log [Txt ''sandbox started'']]),
            case r of Inl e \<Rightarrow> Inl e | Inr u \<Rightarrow> Inr ())"
  using assms by (cases r) (simp_all add: startSandbox_def console_log_def Let_def)

lemma bootstrap_sandbox:
  assumes "loadUserConfig w ''activeNetwork'' = Str ''sandbox''"
  shows "startSandbox w = (ts, Inl e) \<Longrightarrow>
           bootstrap w = ([LoadUserConfig] @ ts @ [LogError ''failed to start. '' e], Inl e)"
    and "startSandbox w = (ts, Inr ()) \<Longrightarrow>
           snd (bootstrap w) = snd (originateBalanceInspector w (loadUserConfig w) ''bob'')"
  using assms
  by (auto simp: bootstrap_def Let_def split: prod.splits sum.splits)

text \<open>
  C5. With the sandbox as active network, the sandbox script started and the toolkit
  of \<open>bob\<close> built: when the first seven requests for the block header fail and the
  eighth succeeds, \<^verbatim>\<open>startSandbox\<close> succeeds after eight requests and the outcome of
  \<^verbatim>\<open>bootstrap\<close> is the outcome of the origination of the inspector, never the error of
  the exhausted retries; when nine requests in a row fail, \<^verbatim>\<open>bootstrap\<close> fails with
  the error of the exhausted retries after exactly nine requests.
\<close>

theorem bootstrap_probe_bounded:
  assumes "loadUserConfig w ''activeNetwork'' = Str ''sandbox''"
    and "exec w ''sh ../../nft-contracts/flextesa/start-sandbox.sh'' = (False, out, errout)"
    and "createToolkit w ''bob'' (loadUserConfig w) = (t, Inr toolkit)"
  shows "((\<forall>n. 1 \<le> n \<and> n \<le> 7 \<longrightarrow> (\<exists>e. getBlockHeader w toolkit ''2'' n = Inl e))
           \<and> getBlockHeader w toolkit ''2'' 8 = Inr ()
          \<longrightarrow> snd (startSandbox w) = Inr ()
              \<and> count_list (fst (startSandbox w)) (GetBlockHeader ''2'') = 8
              \<and> snd (bootstrap w) = snd (originateBalanceInspector w (loadUserConfig w) ''bob'')
              \<and> (\<forall>es. snd (bootstrap w) \<noteq> Inl (RetriesExhausted es)))
       \<and> ((\<forall>n. 1 \<le> n \<and> n \<le> 9 \<longrightarrow> (\<exists>e. getBlockHeader w toolkit ''2'' n = Inl e))
          \<longrightarrow> (\<exists>es. length es = 9 \<and> snd (bootstrap w) = Inl (RetriesExhausted es))
              \<and> count_list (fst (bootstrap w)) (GetBlockHeader ''2'') = 9)"
proof (intro conjI impI)
  assume up: "(\<forall>n. 1 \<le> n \<and> n \<le> 7 \<longrightarrow> (\<exists>e. getBlockHeader w toolkit ''2'' n = Inl e))
           \<and> getBlockHeader w toolkit ''2'' 8 = Inr ()"
  have "\<forall>i<7. \<exists>e. snd (probe w toolkit (1 + i)) = Inl e"
    using up by (simp add: snd_probe)
  moreover have "snd (probe w toolkit (1 + 7)) = Inr ()"
    using up by (simp add: snd_probe)
  ultimately have r: "retry (probe w toolkit) 8 =
      (concat (map (\<lambda>i. fst (probe w toolkit (1 + i))) [0..<Suc 7]), Inr ())"
    unfolding retry_def by (intro run_attempts_succeeds) simp_all
  note ss = startSandbox_after_retry [OF assms(2,3) r]
  have cnt: "count_list t (GetBlockHeader ''2'') = 0"
    using assms(3)
    by (auto simp: createToolkit_def createToolkitFromSigner_def await_def call_def Let_def
          split: sum.splits prod.splits if_splits)
  show ok: "snd (startSandbox w) = Inr ()"
    using ss by simp
  show "count_list (fst (startSandbox w)) (GetBlockHeader ''2'') = 8"
    unfolding ss using cnt by (simp add: count_probe_trace del: upt_Suc)
  from ok have "startSandbox w = (fst (startSandbox w), Inr ())"
    by (metis prod.collapse)
  from bootstrap_sandbox(2) [OF assms(1) this]
  show eq: "snd (bootstrap w) = snd (originateBalanceInspector w (loadUserConfig w) ''bob'')" .
  show "\<forall>es. snd (bootstrap w) \<noteq> Inl (RetriesExhausted es)"
    unfolding eq by (simp add: originateBalanceInspector_no_retry)
next
  assume down: "\<forall>n. 1 \<le> n \<and> n \<le> 9 \<longrightarrow> (\<exists>e. getBlockHeader w toolkit ''2'' n = Inl e)"
  have "\<forall>i\<le>8. \<exists>e. snd (probe w toolkit (1 + i)) = Inl e"
    using down by (simp add: snd_probe)
  from run_attempts_exhausted [OF this, of "[]"] obtain es where es: "length es = 9"
    and r: "retry (probe w toolkit) 8 =
      (concat (map (\<lambda>i. fst (probe w toolkit (1 + i))) [0..<Suc 8]), Inl (RetriesExhausted es))"
    unfolding retry_def by auto
  note ss = startSandbox_after_retry [OF assms(2,3) r]
  have cnt: "count_list t (GetBlockHeader ''2'') = 0"
    using assms(3)
    by (auto simp: createToolkit_def createToolkitFromSigner_def await_def call_def Let_def
          split: sum.splits prod.splits if_splits)
  have ss': "startSandbox w =
      ([Exec ''sh ../../nft-contracts/flextesa/start-sandbox.sh'', Log [Txt out],
        Log [Txt ''starting sandbox...''], LoadUserConfig] @ t @
        concat (map (\<lambda>i. fst (probe w toolkit (1 + i))) [0..<Suc 8]), Inl (RetriesExhausted es))"
    using ss by simp
  note bs = bootstrap_sandbox(1) [OF assms(1) ss']
  show "\<exists>es. length es = 9 \<and> snd (bootstrap w) = Inl (RetriesExhausted es)"
    using es bs by simp
  show "count_list (fst (bootstrap w)) (GetBlockHeader ''2'') = 9"
    unfolding bs using cnt by (simp add: count_probe_trace del: upt_Suc)
qed


theorem bootstrap_probe_bounded_witness:
  "loadUserConfig sandbox_world ''activeNetwork'' = Str ''sandbox''
   \<and> exec sandbox_world ''sh ../../nft-contracts/flextesa/start-sandbox.sh''
       = (False, ''sandbox is up'', [])
   \<and> createToolkit sandbox_world ''bob'' (loadUserConfig sandbox_world) =
       ([ResolveAlias2Signer ''bob'', NewToolkit (Str ''http://localhost:20000'')],
        Inr sandbox_toolkit)
   \<and> map (getBlockHeader sandbox_world sandbox_toolkit ''2'') [1, 2, 3, 4, 5, 6, 7]
       = [Inl ''connection refused'', Inl ''connection refused'', Inl ''connection refused'',
          Inl ''connection refused'', Inl ''connection refused'', Inl ''connection refused'',
          Inl ''connection refused'']
   \<and> getBlockHeader sandbox_world sandbox_toolkit ''2'' 8 = Inr ()
   \<and> snd (startSandbox sandbox_world) = Inr ()
   \<and> count_list (fst (startSandbox sandbox_world)) (GetBlockHeader ''2'') = 8
   \<and> (\<forall>es. snd (bootstrap sandbox_world) \<noteq> Inl (RetriesExhausted es))
   \<and> loadUserConfig unreachable_world ''activeNetwork'' = Str ''sandbox''
   \<and> exec unreachable_world ''sh ../../nft-contracts/flextesa/start-sandbox.sh''
       = (False, ''sandbox is up'', [])
   \<and> createToolkit unreachable_world ''bob'' (loadUserConfig unreachable_world) =
       ([ResolveAlias2Signer ''bob'', NewToolkit (Str ''http://localhost:20000'')],
        Inr sandbox_toolkit)
   \<and> map (getBlockHeader unreachable_world sandbox_toolkit ''2'') [1, 2, 3, 4, 5, 6, 7, 8, 9]
       = [Inl ''connection refused'', Inl ''connection refused'', Inl ''connection refused'',
          Inl ''connection refused'', Inl ''connection refused'', Inl ''connection refused'',
          Inl ''connection refused'', Inl ''connection refused'', Inl ''connection refused'']
   \<and> (\<exists>es. length es = 9 \<and> snd (bootstrap unreachable_world) = Inl (RetriesExhausted es))
   \<and> count_list (fst (bootstrap unreachable_world)) (GetBlockHeader ''2'') = 9"
proof -
  have a1: "loadUserConfig sandbox_world ''activeNetwork'' = Str ''sandbox''"
    by (simp add: sandbox_world_def sandbox_config_def)
  have a2: "exec sandbox_world ''sh ../../nft-contracts/flextesa/start-sandbox.sh''
       = (False, ''sandbox is up'', [])"
    by (simp add: sandbox_world_def)
  have a3: "createToolkit sandbox_world ''bob'' (loadUserConfig sandbox_world) =
       ([ResolveAlias2Signer ''bob'', NewToolkit (Str ''http://localhost:20000'')],
        Inr sandbox_toolkit)"
    by (simp add: createToolkit_def createToolkitFromSigner_def sandbox_world_def
          sandbox_config_def sandbox_toolkit_def Let_def)
  have a4: "(\<forall>n. 1 \<le> n \<and> n \<le> 7 \<longrightarrow>
         (\<exists>e. getBlockHeader sandbox_world sandbox_toolkit ''2'' n = Inl e))
      \<and> getBlockHeader sandbox_world sandbox_toolkit ''2'' 8 = Inr ()"
    by (simp add: sandbox_world_def)
  have b1: "loadUserConfig unreachable_world ''activeNetwork'' = Str ''sandbox''"
    by (simp add: unreachable_world_def sandbox_world_def sandbox_config_def)
  have b2: "exec unreachable_world ''sh ../../nft-contracts/flextesa/start-sandbox.sh''
       = (False, ''sandbox is up'', [])"
    by (simp add: unreachable_world_def sandbox_world_def)
  have b3: "createToolkit unreachable_world ''bob'' (loadUserConfig unreachable_world) =
       ([ResolveAlias2Signer ''bob'', NewToolkit (Str ''http://localhost:20000'')],
        Inr sandbox_toolkit)"
    by (simp add: createToolkit_def createToolkitFromSigner_def unreachable_world_def
          sandbox_world_def sandbox_config_def sandbox_toolkit_def Let_def)
  have b4: "\<forall>n. 1 \<le> n \<and> n \<le> 9 \<longrightarrow>
         (\<exists>e. getBlockHeader unreachable_world sandbox_toolkit ''2'' n = Inl e)"
    by (simp add: unreachable_world_def)
  have a5: "map (getBlockHeader sandbox_world sandbox_toolkit ''2'') [1, 2, 3, 4, 5, 6, 7]
       = [Inl ''connection refused'', Inl ''connection refused'', Inl ''connection refused'',
          Inl ''connection refused'', Inl ''connection refused'', Inl ''connection refused'',
          Inl ''connection refused'']"
    by (simp add: sandbox_world_def)
  have b5: "map (getBlockHeader unreachable_world sandbox_toolkit ''2'') [1, 2, 3, 4, 5, 6, 7, 8, 9]
       = [Inl ''connection refused'', Inl ''connection refused'', Inl ''connection refused'',
          Inl ''connection refused'', Inl ''connection refused'', Inl ''connection refused'',
          Inl ''connection refused'', Inl ''connection refused'', Inl ''connection refused'']"
    by (simp add: unreachable_world_def)
  show ?thesis
    using a1 a2 a3 a4 a5 b1 b2 b3 b4 b5
      bootstrap_probe_bounded [OF a1 a2 a3] bootstrap_probe_bounded [OF b1 b2 b3]
    by blast
qed


end
